theory Spec2Isabelle
  imports Complex_Main
begin

section \<open>Arrays and errors\<close>

text \<open>
  The module \<open>pyphase.discrete\<close> works on numpy arrays of floats. An array is modelled by
  its shape and its elements in row-major order; floats are modelled by real numbers.
  Python exceptions are values: \<open>ValueError\<close> and \<open>IndexError\<close>, with their message.
\<close>

datatype error = ValueError string | IndexError string

record ndarray =
  shape :: "nat list"
  elems :: "real list"

definition ndim :: "ndarray \<Rightarrow> nat" where
  "ndim x = length (shape x)"

text \<open>\<open>np.squeeze\<close>: the axes of length one are removed, the elements stay.\<close>

definition squeeze :: "ndarray \<Rightarrow> ndarray" where
  "squeeze x = x\<lparr>shape := filter (\<lambda>d. d \<noteq> 1) (shape x)\<rparr>"

text \<open>A one-dimensional array holding the given samples.\<close>

definition vec :: "real list \<Rightarrow> ndarray" where
  "vec xs = \<lparr>shape = [length xs], elems = xs\<rparr>"

text \<open>\<open>a[:, j]\<close> of a two-dimensional array.\<close>

definition column :: "ndarray \<Rightarrow> nat \<Rightarrow> ndarray" where
  "column x j =
     \<lparr>shape = [shape x ! 0],
      elems = map (\<lambda>i. elems x ! (i * (shape x ! 1) + j)) [0..<shape x ! 0]\<rparr>"


section \<open>External collaborators\<close>

text \<open>
  Modelled from the spec: \<open>scipy.signal.detrend\<close> is not part of the repository; the spec
  describes it as removing the best-fit linear component of a 1D sequence. The least-squares
  line over the sample indices is subtracted, in exact arithmetic.
\<close>

definition detrend :: "real list \<Rightarrow> real list" where
  "detrend ys =
     (let n = length ys;
          xbar = (real n - 1) / 2;
          ybar = sum_list ys / real n;
          sxx = sum_list (map (\<lambda>i. (real i - xbar) * (real i - xbar)) [0..<n]);
          sxy = sum_list (map (\<lambda>i. (real i - xbar) * (ys ! i - ybar)) [0..<n]);
          slope = sxy / sxx
      in map (\<lambda>i. ys ! i - ybar - slope * (real i - xbar)) [0..<n])"

text \<open>
  \<open>np.random.sample\<close> reads numpy's global generator. The generator is modelled by the stream
  of the draws it will produce next, each in \<open>[0, 1)\<close>; drawing an \<open>L \<times> N\<close> matrix takes the
  first \<open>L * N\<close> draws in row-major order and leaves the rest.
\<close>

type_synonym rng = "nat \<Rightarrow> real"

definition advance :: "nat \<Rightarrow> rng \<Rightarrow> rng" where
  "advance c g = (\<lambda>n. g (n + c))"

definition random_sample :: "nat \<Rightarrow> nat \<Rightarrow> rng \<Rightarrow> real list list \<times> rng" where
  "random_sample L N g =
     (map (\<lambda>k. map (\<lambda>i. g (k * N + i)) [0..<N]) [0..<L], advance (L * N) g)"

definition unit_draws :: "rng \<Rightarrow> bool" where
  "unit_draws g = (\<forall>n. 0 \<le> g n \<and> g n < 1)"

text \<open>\<open>np.roll(xs, s)\<close>: element \<open>i\<close> of the result is \<open>xs[(i - s) mod N]\<close>.\<close>

definition roll :: "'a list \<Rightarrow> int \<Rightarrow> 'a list" where
  "roll xs s = rotate (nat ((- s) mod int (length xs))) xs"

text \<open>\<open>argmin\<close>: the first index of the least element; numpy raises on an empty array.\<close>

fun argmin_list :: "real list \<Rightarrow> nat" where
  "argmin_list [] = 0"
| "argmin_list [x] = 0"
| "argmin_list (x # xs) = (let j = argmin_list xs in if x \<le> xs ! j then 0 else Suc j)"

definition argmin :: "real list \<Rightarrow> error + nat" where
  "argmin xs =
     (if xs = [] then Inl (ValueError ''attempt to get argmin of an empty sequence'')
      else Inr (argmin_list xs))"

text \<open>
  \<open>std(ddof)\<close> of a sequence: the square root of the sum of squared deviations from the mean
  over \<open>n - ddof\<close>. With \<open>n \<le> ddof\<close> numpy divides by zero and the result is not a number
  (\<open>nan\<close>, or \<open>inf\<close>): that is \<open>None\<close> here, which no comparison with \<open>0\<close> satisfies.
\<close>

definition std :: "nat \<Rightarrow> real list \<Rightarrow> real option" where
  "std ddof xs =
     (let n = length xs; m = sum_list xs / real n
      in if n \<le> ddof then None
         else Some (sqrt (sum_list (map (\<lambda>x. (x - m) * (x - m)) xs) / real (n - ddof))))"

text \<open>\<open>rows.std(axis=0, ddof)\<close>: one value per column.\<close>

definition std_axis0 :: "nat \<Rightarrow> real list list \<Rightarrow> real option list" where
  "std_axis0 ddof rows =
     map (\<lambda>i. std ddof (map (\<lambda>r. r ! i) rows)) [0..<length (rows ! 0)]"

text \<open>\<open>np.nonzero(bs)[0]\<close>: the indices of the true entries, ascending.\<close>

definition nonzero :: "bool list \<Rightarrow> nat list" where
  "nonzero bs = filter (\<lambda>i. bs ! i) [0..<length bs]"

text \<open>\<open>np.diff\<close>: successive differences, one shorter than the argument (empty stays empty).\<close>

fun diff :: "int list \<Rightarrow> int list" where
  "diff (x # y # xs) = (y - x) # diff (y # xs)"
| "diff xs = []"

text \<open>\<open>t[idx]\<close> with an integer index array: numpy raises when an index is out of bounds.\<close>

definition take_idx :: "real list \<Rightarrow> nat list \<Rightarrow> error + real list" where
  "take_idx t idx =
     (if list_all (\<lambda>i. i < length t) idx then Inr (map (\<lambda>i. t ! i) idx)
      else Inl (IndexError ''index is out of bounds''))"

section \<open>Validation\<close>

definition validate_vector :: "ndarray \<Rightarrow> error + ndarray" where
  "validate_vector data0 =
     (let data = squeeze data0
      in if length (shape data) > 1 then Inl (ValueError ''input cannot be cast to 1D vector'')
         else Inr data)"

text \<open>
  \<open>_collapse\<close>: \<open>PCA(n_components=1).fit_transform\<close> of scikit-learn is not part of the
  repository and is a parameter; it may raise errors of its own.
\<close>

definition collapse :: "(ndarray \<Rightarrow> error + ndarray) \<Rightarrow> ndarray \<Rightarrow> error + ndarray" where
  "collapse pca data = (case pca data of Inl e \<Rightarrow> Inl e | Inr y \<Rightarrow> Inr (squeeze y))"

definition reduce1 :: "(ndarray \<Rightarrow> error + ndarray) \<Rightarrow> ndarray \<Rightarrow> error + ndarray" where
  "reduce1 pca a0 = (let a = squeeze a0 in if ndim a > 1 then collapse pca a else Inr a)"

definition validate_vectors ::
  "(ndarray \<Rightarrow> error + ndarray) \<Rightarrow> ndarray \<Rightarrow> ndarray option \<Rightarrow> error + (ndarray \<times> ndarray)" where
  "validate_vectors pca a0 b0 =
     (case (case b0 of
              None \<Rightarrow>
                (let a = squeeze a0
                 in if ndim a \<noteq> 2 then
                      Inl (ValueError ''with one input, array must have be 2D with two columns'')
                    else if shape a ! 1 \<noteq> 2 then
                      Inl (ValueError ''with one input, array must have be 2D with two columns'')
                    else Inr (column a 0, column a 1))
            | Some b \<Rightarrow> Inr (a0, b)) of
        Inl e \<Rightarrow> Inl e
      | Inr (a, b) \<Rightarrow>
          (case reduce1 pca a of
             Inl e \<Rightarrow> Inl e
           | Inr a' \<Rightarrow> (case reduce1 pca b of Inl e \<Rightarrow> Inl e | Inr b' \<Rightarrow> Inr (a', b'))))"

section \<open>Peak detection\<close>

text \<open>
  \<open>_local_maxima_scalogram\<close> (the private functions are named without their leading
  underscore). The result carries the generator left behind. A 0-d array has no first axis
  (\<open>data.shape[0]\<close>); a negative \<open>L\<close> is refused by \<open>np.random.sample\<close>. \<open>N/2\<close> is the
  true division of Python 3. Row \<open>shift_ix\<close> is the scale \<open>k = shift_ix + 1\<close>; the constant
  offset \<open>a\<close> is \<open>1\<close>.
\<close>

definition local_maxima_scalogram :: "rng \<Rightarrow> ndarray \<Rightarrow> (error + real list list) \<times> rng" where
  "local_maxima_scalogram g data0 =
     (case validate_vector data0 of
        Inl e \<Rightarrow> (Inl e, g)
      | Inr v \<Rightarrow>
          (if shape v = [] then (Inl (IndexError ''tuple index out of range''), g)
           else
             let data = detrend (elems v);
                 N = length data;
                 L = \<lceil>real N / 2\<rceil> - 1
             in if L < 0 then (Inl (ValueError ''negative dimensions are not allowed''), g)
                else
                  let (r, g') = random_sample (nat L) N g;
                      shifted_back = map (\<lambda>shift_ix. roll data (- (int shift_ix + 1))) [0..<nat L];
                      shifted_forward = map (\<lambda>shift_ix. roll data (int shift_ix + 1)) [0..<nat L]
                  in (Inr (map (\<lambda>shift_ix.
                             map (\<lambda>data_ix.
                                    if (shift_ix + 1) + 1 \<le> data_ix
                                       \<and> int data_ix \<le> int N - int (shift_ix + 1)
                                       \<and> data ! data_ix > shifted_back ! shift_ix ! data_ix
                                       \<and> data ! data_ix > shifted_forward ! shift_ix ! data_ix
                                    then 0
                                    else r ! shift_ix ! data_ix + 1)
                                 [0..<N])
                           [0..<nat L]), g')))"

definition ampd_peaks :: "rng \<Rightarrow> ndarray \<Rightarrow> (error + nat list) \<times> rng" where
  "ampd_peaks g data =
     (case local_maxima_scalogram g data of
        (Inl e, g') \<Rightarrow> (Inl e, g')
      | (Inr lms, g') \<Rightarrow>
          (let gamma = map sum_list lms
           in case argmin gamma of
                Inl e \<Rightarrow> (Inl e, g')
              | Inr global_min \<Rightarrow>
                  (let stds = std_axis0 1 (take (global_min + 1) lms)
                   in (Inr (nonzero (map (\<lambda>s. s = Some 0) stds)), g'))))"

section \<open>Relative phase\<close>

definition arange :: "nat \<Rightarrow> real list" where
  "arange n = map real [0..<n]"

text \<open>
  Lines 58 and 59: the time array defaults to \<open>np.arange(a.shape[0])\<close>, which a 0-d array
  (one without a first axis) refuses.
\<close>

definition time_base :: "real list option \<Rightarrow> ndarray \<Rightarrow> error + real list" where
  "time_base t0 a =
     (case t0 of
        None \<Rightarrow> (if shape a = [] then Inl (IndexError ''tuple index out of range'')
                  else Inr (arange (shape a ! 0)))
      | Some t \<Rightarrow> Inr t)"

definition relative_phase ::
  "(ndarray \<Rightarrow> error + ndarray) \<Rightarrow> rng \<Rightarrow> ndarray \<Rightarrow> ndarray option \<Rightarrow> real list option
     \<Rightarrow> (error + (real list \<times> real list \<times> real list)) \<times> rng" where
  "relative_phase pca g a0 b0 t0 =
     (case validate_vectors pca a0 b0 of
        Inl e \<Rightarrow> (Inl e, g)
      | Inr (a, b) \<Rightarrow>
          (case time_base t0 a of
             Inl e \<Rightarrow> (Inl e, g)
           | Inr t \<Rightarrow>
               (case ampd_peaks g a of
                  (Inl e, g1) \<Rightarrow> (Inl e, g1)
                | (Inr peaks0, g1) \<Rightarrow>
                    (case ampd_peaks g1 b of
                       (Inl e, g2) \<Rightarrow> (Inl e, g2)
                     | (Inr peaks1, g2) \<Rightarrow>
                         (let periods = diff (map int peaks0);
                              len = min (length peaks0) (min (length peaks1) (length periods));
                              pa = take len peaks0;
                              pb = take len peaks1;
                              per = take len periods;
                              rel_phase = map (\<lambda>j. 2 * pi * real_of_int (int (pa ! j) - int (pb ! j))
                                                   / real_of_int (per ! j)) [0..<len]
                          in case take_idx t pa of
                               Inl e \<Rightarrow> (Inl e, g2)
                             | Inr ta \<Rightarrow>
                                 (case take_idx t pb of
                                    Inl e \<Rightarrow> (Inl e, g2)
                                  | Inr tb \<Rightarrow> (Inr (ta, tb, rel_phase), g2)))))))"


section \<open>Notions of the specification\<close>

text \<open>
  The specification's \<open>ValidationError\<close>: the module defines no exception class of its own,
  both \<open>raise\<close> statements raise Python's \<open>ValueError\<close>, and a caller (as the tests do)
  recognises it by its class. Every \<open>ValueError\<close>, whatever its message and whoever raises
  it, is therefore a \<open>ValidationError\<close>; an \<open>IndexError\<close> is not.
\<close>

fun ValidationError :: "error \<Rightarrow> bool" where
  "ValidationError (ValueError m) = True"
| "ValidationError (IndexError m) = False"

text \<open>
  A well-formed array holds as many elements as its shape says. A signal of the data model
  has at least two samples; the scalogram has a first scale from three samples on.
\<close>

definition wf_array :: "ndarray \<Rightarrow> bool" where
  "wf_array x = (length (elems x) = prod_list (shape x))"

section \<open>Concrete collaborators used in evaluations\<close>

text \<open>A generator whose every draw is the same value.\<close>

definition draws_const :: "real \<Rightarrow> rng" where
  "draws_const c n = c"

text \<open>
  A generator for signals of eight samples (a \<open>3 \<times> 8\<close> baseline per detection): during the
  first two detections rows one, two and three draw \<open>1/2\<close>, \<open>1/4\<close> and \<open>1/8\<close>; afterwards
  rows one and two draw \<open>1/4\<close> and \<open>1/2\<close>.
\<close>

definition draws_two_phase :: rng where
  "draws_two_phase n =
     (if (n mod 24) div 8 = 2 then 1 / 8
      else if n < 48 then (if (n mod 24) div 8 = 0 then 1 / 2 else 1 / 4)
      else (if (n mod 24) div 8 = 0 then 1 / 4 else 1 / 2))"

text \<open>
  A stand-in for the dimensionality reduction: it keeps the first column of a two-dimensional
  array, as an \<open>n \<times> 1\<close> array, and refuses every other array.
\<close>

definition pca_first_column :: "ndarray \<Rightarrow> error + ndarray" where
  "pca_first_column x =
     (if ndim x = 2 then
        Inr \<lparr>shape = [shape x ! 0, 1],
             elems = map (\<lambda>i. elems x ! (i * (shape x ! 1))) [0..<shape x ! 0]\<rparr>
      else Inl (ValueError ''Expected 2D array''))"

section \<open>Auxiliary facts\<close>

lemma advance_apply: "advance c g n = g (n + c)"
  by (simp add: advance_def)

lemma advance_0: "advance 0 g = g"
  by (simp add: advance_def)

lemma advance_advance: "advance a (advance b g) = advance (a + b) g"
  by (simp add: advance_def add.assoc)

lemma advance_draws_const: "advance c (draws_const x) = draws_const x"
  by (rule ext) (simp add: advance_def draws_const_def)

lemma length_detrend: "length (detrend ys) = length ys"
  by (simp add: detrend_def Let_def)

lemma roll_back_nth:
  assumes "i < length xs"
  shows "roll xs (- int k) ! i = xs ! ((i + k) mod length xs)"
proof -
  have "nat (int k mod int (length xs)) = k mod length xs"
    by (simp add: nat_mod_distrib)
  then show ?thesis using assms
    by (simp add: roll_def nth_rotate add.commute mod_add_right_eq)
qed

lemma roll_forward_nth:
  assumes "i < length xs" "k \<le> i"
  shows "roll xs (int k) ! i = xs ! (i - k)"
proof -
  let ?n = "length xs"
  have n: "0 < int ?n" using assms by auto
  have "int ((i + nat ((- int k) mod int ?n)) mod ?n)
        = (int i + (- int k) mod int ?n) mod int ?n"
    using n by (simp add: zmod_int)
  also have "\<dots> = (int i - int k) mod int ?n"
    by (simp add: mod_add_right_eq)
  also have "\<dots> = int (i - k)"
    using assms by (simp add: of_nat_diff)
  finally have "(i + nat ((- int k) mod int ?n)) mod ?n = i - k"
    by (simp only: of_nat_eq_iff)
  then show ?thesis using assms by (simp add: roll_def nth_rotate add.commute)
qed

lemma ceil_half: "\<lceil>real N / 2\<rceil> = int ((N + 1) div 2)"
proof -
  have "\<lceil>real_of_int (int N) / real_of_int 2\<rceil> = - ((- int N) div 2)"
    by (rule ceiling_divide_eq_div)
  then have "\<lceil>real N / 2\<rceil> = - ((- int N) div 2)" by simp
  then show ?thesis by linarith
qed

lemma squeeze_vec: "length xs \<noteq> 1 \<Longrightarrow> squeeze (vec xs) = vec xs"
  by (simp add: squeeze_def vec_def)

lemma validate_vector_vec: "length xs \<noteq> 1 \<Longrightarrow> validate_vector (vec xs) = Inr (vec xs)"
  by (simp add: validate_vector_def squeeze_vec Let_def) (simp add: vec_def)

lemma nat_L: "nat (\<lceil>real N / 2\<rceil> - 1) = (N + 1) div 2 - 1"
  by (simp add: ceil_half nat_diff_distrib')

lemma L_nonneg: "0 < N \<Longrightarrow> \<not> \<lceil>real N / 2\<rceil> - 1 < 0"
  by (simp add: ceil_half) 

lemma lms_cell_cond:
  assumes "i < length d" "s < (length d + 1) div 2 - 1"
  shows "(s + 1 + 1 \<le> i \<and> int i \<le> int (length d) - int (s + 1)
          \<and> d ! i > map (\<lambda>shift_ix. roll d (- (int shift_ix + 1))) [0..<(length d + 1) div 2 - 1] ! s ! i
          \<and> d ! i > map (\<lambda>shift_ix. roll d (int shift_ix + 1)) [0..<(length d + 1) div 2 - 1] ! s ! i)
       = (s + 2 \<le> i \<and> i + s + 1 \<le> length d
          \<and> d ! i > d ! ((i + (s + 1)) mod length d) \<and> d ! i > d ! (i - (s + 1)))"
proof (cases "s + 2 \<le> i")
  case True
  have "- (int s + 1) = - int (s + 1)" by simp
  then have b: "roll d (- (int s + 1)) ! i = d ! ((i + (s + 1)) mod length d)"
    using roll_back_nth[OF assms(1), of "s + 1"] by (simp only:)
  have "int s + 1 = int (s + 1)" by simp
  then have f: "roll d (int s + 1) ! i = d ! (i - (s + 1))"
    using roll_forward_nth[OF assms(1), of "s + 1"] True by (simp only:)
  have r: "(int i \<le> int (length d) - int (s + 1)) = (i + s + 1 \<le> length d)"
    by linarith
  have m1: "map (\<lambda>shift_ix. roll d (- (int shift_ix + 1))) [0..<(length d + 1) div 2 - 1] ! s
            = roll d (- (int s + 1))"
    using assms(2) by simp
  have m2: "map (\<lambda>shift_ix. roll d (int shift_ix + 1)) [0..<(length d + 1) div 2 - 1] ! s
            = roll d (int s + 1)"
    using assms(2) by simp
  show ?thesis unfolding m1 m2 b f r using True by simp
next
  case False
  then show ?thesis by simp
qed

lemma lms_vec:
  assumes "2 \<le> length xs"
  shows "local_maxima_scalogram g (vec xs) =
     (Inr (map (\<lambda>s. map (\<lambda>i.
              if s + 2 \<le> i \<and> i + s + 1 \<le> length xs
                 \<and> detrend xs ! i > detrend xs ! ((i + (s + 1)) mod length xs)
                 \<and> detrend xs ! i > detrend xs ! (i - (s + 1))
              then 0 else g (s * length xs + i) + 1) [0..<length xs])
           [0..<(length xs + 1) div 2 - 1]),
      advance (((length xs + 1) div 2 - 1) * length xs) g)"
proof -
  have v: "validate_vector (vec xs) = Inr (vec xs)"
    using assms by (intro validate_vector_vec) auto
  have sh: "shape (vec xs) \<noteq> []" "elems (vec xs) = xs" by (simp_all add: vec_def)
  have L: "\<not> \<lceil>real (length xs) / 2\<rceil> - 1 < 0" using assms by (intro L_nonneg) auto
  show ?thesis
    unfolding local_maxima_scalogram_def v sum.case sh Let_def length_detrend random_sample_def
      nat_L prod.case
    apply (simp only: L sh(1) if_False simp_thms prod.inject)
    apply (rule arg_cong[where f=Inr])
    apply (rule map_cong[OF refl])
    apply (rule map_cong[OF refl])
    subgoal for s i
      using lms_cell_cond[of i "detrend xs" s]
      by (simp add: length_detrend)
    done
qed


lemma argmin_list_less: "xs \<noteq> [] \<Longrightarrow> argmin_list xs < length xs"
  by (induction xs rule: argmin_list.induct) (auto simp: Let_def)

lemma argmin_list_le: "k < length xs \<Longrightarrow> xs ! argmin_list xs \<le> xs ! k"
proof (induction xs arbitrary: k rule: argmin_list.induct)
  case 1
  then show ?case by simp
next
  case (2 x)
  then show ?case by simp
next
  case (3 x y ys)
  show ?case
  proof (cases k)
    case 0
    then show ?thesis by (auto simp: Let_def)
  next
    case (Suc k')
    with 3 have "(y # ys) ! argmin_list (y # ys) \<le> (y # ys) ! k'" by simp
    with Suc show ?thesis by (auto simp: Let_def)
  qed
qed

lemma argmin_list_first: "k < argmin_list xs \<Longrightarrow> xs ! argmin_list xs < xs ! k"
proof (induction xs arbitrary: k rule: argmin_list.induct)
  case 1
  then show ?case by simp
next
  case (2 x)
  then show ?case by simp
next
  case (3 x y ys)
  let ?j = "argmin_list (y # ys)"
  from 3(2) have nle: "\<not> x \<le> (y # ys) ! ?j" and k: "k < Suc ?j"
    by (auto simp: Let_def split: if_splits)
  show ?case
  proof (cases k)
    case 0
    with nle show ?thesis by (auto simp: Let_def)
  next
    case (Suc k')
    with k have "k' < ?j" by simp
    with 3(1) have "(y # ys) ! ?j < (y # ys) ! k'" by simp
    with Suc nle show ?thesis by (auto simp: Let_def)
  qed
qed

lemma std_single: "std 1 [x] = None"
  by (simp add: std_def)

lemma nonzero_all_false: "list_all (\<lambda>b. \<not> b) bs \<Longrightarrow> nonzero bs = []"
  by (auto simp: nonzero_def list_all_length filter_empty_conv)

lemma nonzero_map: "nonzero (map P xs) = filter (\<lambda>i. P (xs ! i)) [0..<length xs]"
  unfolding nonzero_def by (rule filter_cong) auto

lemma ampd_peaks_eq:
  assumes "local_maxima_scalogram g data = (Inr lms, g')" and "lms \<noteq> []"
  shows "ampd_peaks g data =
     (Inr (filter (\<lambda>i. std 1 (map (\<lambda>r. r ! i) (take (argmin_list (map sum_list lms) + 1) lms)) = Some 0)
             [0..<length (lms ! 0)]), g')"
proof -
  let ?lam = "argmin_list (map sum_list lms) + 1"
  have t: "take ?lam lms ! 0 = lms ! 0" using assms(2) by simp
  have len: "length (std_axis0 1 (take ?lam lms)) = length (lms ! 0)"
    by (simp only: std_axis0_def length_map length_upt t minus_nat.diff_0)
  have "nonzero (map (\<lambda>s. s = Some 0) (std_axis0 1 (take ?lam lms)))
      = filter (\<lambda>i. std 1 (map (\<lambda>r. r ! i) (take ?lam lms)) = Some 0) [0..<length (lms ! 0)]"
    unfolding nonzero_map len
    by (rule filter_cong) (simp_all add: std_axis0_def t del: take_Suc_Cons)
  then show ?thesis using assms by (simp add: ampd_peaks_def argmin_def Let_def)
qed

lemma length_diff: "length (diff xs) = length xs - 1"
  by (induction xs rule: diff.induct) auto


lemma take_idx_Nil: "take_idx t [] = Inr []"
  by (simp add: take_idx_def)


lemma ampd_peaks_shape:
  assumes "ampd_peaks g a = (Inr p, g')"
  shows "shape a \<noteq> []"
proof
  assume "shape a = []"
  then have "local_maxima_scalogram g a = (Inl (IndexError ''tuple index out of range''), g)"
    by (simp add: local_maxima_scalogram_def validate_vector_def squeeze_def Let_def)
  with assms show False by (simp add: ampd_peaks_def)
qed

lemma relative_phase_unfold:
  assumes "validate_vectors pca a0 b0 = Inr (a, b)"
    and "time_base t0 a = Inr t"
    and "ampd_peaks g a = (Inr peaks_A, g1)"
    and "ampd_peaks g1 b = (Inr peaks_B, g2)"
  shows "relative_phase pca g a0 b0 t0 =
     (let len = min (length peaks_A) (min (length peaks_B) (length (diff (map int peaks_A))))
      in case take_idx t (take len peaks_A) of
           Inl e \<Rightarrow> (Inl e, g2)
         | Inr ta \<Rightarrow>
             (case take_idx t (take len peaks_B) of
                Inl e \<Rightarrow> (Inl e, g2)
              | Inr tb \<Rightarrow>
                  (Inr (ta, tb,
                        map (\<lambda>j. 2 * pi * real_of_int (int (take len peaks_A ! j) - int (take len peaks_B ! j))
                                   / real_of_int (take len (diff (map int peaks_A)) ! j)) [0..<len]), g2)))"
  by (simp only: relative_phase_def assms sum.case prod.case Let_def)

lemma detrend_example4: "detrend [1, 1, - 5, 3] = [1, 1, - 5, 3]"
  by (simp add: detrend_def Let_def)

lemma detrend_example8:
  "detrend [- 2, 0, 0, 4, - 1, - 1, 3, - 3] = [- 2, 0, 0, 4, - 1, - 1, 3, - 3]"
  by (simp add: detrend_def Let_def)

lemma lms_vec_n:
  assumes "length xs = N" and "2 \<le> N"
  shows "local_maxima_scalogram g (vec xs) =
     (Inr (map (\<lambda>s. map (\<lambda>i.
              if s + 2 \<le> i \<and> i + s + 1 \<le> N
                 \<and> detrend xs ! i > detrend xs ! ((i + (s + 1)) mod N)
                 \<and> detrend xs ! i > detrend xs ! (i - (s + 1))
              then 0 else g (s * N + i) + 1) [0..<N])
           [0..<(N + 1) div 2 - 1]),
      advance (((N + 1) div 2 - 1) * N) g)"
  using lms_vec[of xs g] assms by simp

lemma lms8_first:
  "local_maxima_scalogram draws_two_phase (vec [- 2, 0, 0, 4, - 1, - 1, 3, - 3]) =
    (Inr [[3/2, 3/2, 3/2, 0, 3/2, 3/2, 0, 3/2],
          [5/4, 5/4, 5/4, 0, 5/4, 5/4, 0, 5/4],
          [9/8, 9/8, 9/8, 9/8, 9/8, 9/8, 9/8, 9/8]], advance 24 draws_two_phase)"
  by (simp add: lms_vec_n[where N=8] upt_conv_Cons detrend_example8 draws_two_phase_def)

lemma peaks8_first:
  "ampd_peaks draws_two_phase (vec [- 2, 0, 0, 4, - 1, - 1, 3, - 3]) =
    (Inr [3, 6], advance 24 draws_two_phase)"
  by (simp add: ampd_peaks_def lms8_first argmin_def std_axis0_def std_def nonzero_def Let_def)

lemma lms8_second:
  "local_maxima_scalogram (advance 24 draws_two_phase) (vec [- 2, 0, 0, 4, - 1, - 1, 3, - 3]) =
    (Inr [[3/2, 3/2, 3/2, 0, 3/2, 3/2, 0, 3/2],
          [5/4, 5/4, 5/4, 0, 5/4, 5/4, 0, 5/4],
          [9/8, 9/8, 9/8, 9/8, 9/8, 9/8, 9/8, 9/8]], advance 48 draws_two_phase)"
  by (simp add: lms_vec_n[where N=8] upt_conv_Cons detrend_example8 draws_two_phase_def advance_apply advance_advance)

lemma lms8_third:
  "local_maxima_scalogram (advance 48 draws_two_phase) (vec [- 2, 0, 0, 4, - 1, - 1, 3, - 3]) =
    (Inr [[5/4, 5/4, 5/4, 0, 5/4, 5/4, 0, 5/4],
          [3/2, 3/2, 3/2, 0, 3/2, 3/2, 0, 3/2],
          [9/8, 9/8, 9/8, 9/8, 9/8, 9/8, 9/8, 9/8]], advance 72 draws_two_phase)"
  by (simp add: lms_vec_n[where N=8] upt_conv_Cons detrend_example8 draws_two_phase_def advance_apply advance_advance)

lemma lms8_fourth:
  "local_maxima_scalogram (advance 72 draws_two_phase) (vec [- 2, 0, 0, 4, - 1, - 1, 3, - 3]) =
    (Inr [[5/4, 5/4, 5/4, 0, 5/4, 5/4, 0, 5/4],
          [3/2, 3/2, 3/2, 0, 3/2, 3/2, 0, 3/2],
          [9/8, 9/8, 9/8, 9/8, 9/8, 9/8, 9/8, 9/8]], advance 96 draws_two_phase)"
  by (simp add: lms_vec_n[where N=8] upt_conv_Cons detrend_example8 draws_two_phase_def advance_apply advance_advance)


lemma reduce1_vec: "length xs \<noteq> 1 \<Longrightarrow> reduce1 pca (vec xs) = Inr (vec xs)"
  by (simp add: reduce1_def squeeze_vec Let_def) (simp add: vec_def ndim_def)

lemma validate_vectors_vecs:
  "length xs \<noteq> 1 \<Longrightarrow> length ys \<noteq> 1 \<Longrightarrow>
   validate_vectors pca (vec xs) (Some (vec ys)) = Inr (vec xs, vec ys)"
  by (simp add: validate_vectors_def reduce1_vec)

lemma time_base_vec: "time_base None (vec xs) = Inr (arange (length xs))"
  by (simp add: time_base_def vec_def)

lemma peaks8_second:
  "ampd_peaks (advance 24 draws_two_phase) (vec [- 2, 0, 0, 4, - 1, - 1, 3, - 3]) =
    (Inr [3, 6], advance 48 draws_two_phase)"
  by (simp add: ampd_peaks_def lms8_second argmin_def std_axis0_def std_def nonzero_def Let_def)

lemma peaks8_third:
  "ampd_peaks (advance 48 draws_two_phase) (vec [- 2, 0, 0, 4, - 1, - 1, 3, - 3]) =
    (Inr [], advance 72 draws_two_phase)"
  by (simp add: ampd_peaks_def lms8_third argmin_def std_axis0_def std_def nonzero_def Let_def)

lemma peaks8_fourth:
  "ampd_peaks (advance 72 draws_two_phase) (vec [- 2, 0, 0, 4, - 1, - 1, 3, - 3]) =
    (Inr [], advance 96 draws_two_phase)"
  by (simp add: ampd_peaks_def lms8_fourth argmin_def std_axis0_def std_def nonzero_def Let_def)

lemma peaks4:
  "ampd_peaks (draws_const 0) (vec [1, 1, - 5, 3]) = (Inr [], draws_const 0)"
  by (simp add: ampd_peaks_def lms_vec_n[where N=4] upt_conv_Cons detrend_example4 draws_const_def
      advance_draws_const argmin_def std_axis0_def std_def nonzero_def Let_def)

lemma rp8_first:
  "relative_phase pca draws_two_phase (vec [- 2, 0, 0, 4, - 1, - 1, 3, - 3])
      (Some (vec [- 2, 0, 0, 4, - 1, - 1, 3, - 3])) None
   = (Inr ([3], [3], [0]), advance 48 draws_two_phase)"
  by (simp add: relative_phase_unfold[OF validate_vectors_vecs time_base_vec peaks8_first peaks8_second]
      take_idx_def arange_def upt_conv_Cons)

lemma rp8_second:
  "relative_phase pca (advance 48 draws_two_phase) (vec [- 2, 0, 0, 4, - 1, - 1, 3, - 3])
      (Some (vec [- 2, 0, 0, 4, - 1, - 1, 3, - 3])) None
   = (Inr ([], [], []), advance 96 draws_two_phase)"
  by (simp add: relative_phase_unfold[OF validate_vectors_vecs time_base_vec peaks8_third peaks8_fourth]
      take_idx_def)

lemma rp4:
  "relative_phase pca (draws_const 0) (vec [1, 1, - 5, 3]) (Some (vec [1, 1, - 5, 3])) None
   = (Inr ([], [], []), draws_const 0)"
  by (simp add: relative_phase_unfold[OF validate_vectors_vecs time_base_vec peaks4 peaks4]
      take_idx_def)

lemma unit_draws_two_phase: "unit_draws draws_two_phase"
  by (simp add: unit_draws_def draws_two_phase_def)

lemma unit_draws_const0: "unit_draws (draws_const 0)"
  by (simp add: unit_draws_def draws_const_def)





lemma random_sample_frame:
  assumes "\<forall>n<L * N. h n = g n"
  shows "random_sample L N h = (fst (random_sample L N g), advance (L * N) h)"
proof -
  have "h (k * N + i) = g (k * N + i)" if "k < L" "i < N" for k i
  proof -
    from that have "k * N + i < Suc k * N" by simp
    also from that have "\<dots> \<le> L * N" by (intro mult_le_mono1) simp
    finally show ?thesis using assms by simp
  qed
  then have "map (\<lambda>k. map (\<lambda>i. h (k * N + i)) [0..<N]) [0..<L]
           = map (\<lambda>k. map (\<lambda>i. g (k * N + i)) [0..<N]) [0..<L]"
    by (intro map_cong refl) simp
  then show ?thesis by (simp add: random_sample_def)
qed

lemma lms_frame:
  assumes "local_maxima_scalogram g a = (r, g')"
  shows "\<exists>c. g' = advance c g
            \<and> (\<forall>h. (\<forall>n<c. h n = g n) \<longrightarrow> local_maxima_scalogram h a = (r, advance c h))"
proof (cases "validate_vector a")
  case (Inl e)
  with assms have "r = Inl e" "g' = g" by (simp_all add: local_maxima_scalogram_def)
  with Inl show ?thesis
    by (intro exI[of _ 0]) (simp add: local_maxima_scalogram_def advance_0)
next
  case (Inr v)
  show ?thesis
  proof (cases "shape v = [] \<or> \<lceil>real (length (detrend (elems v))) / 2\<rceil> - 1 < 0")
    case True
    with assms Inr obtain e where "r = Inl e" "g' = g" "\<And>h. local_maxima_scalogram h a = (Inl e, h)"
      by (auto simp: local_maxima_scalogram_def Let_def split: if_splits)
    then show ?thesis by (intro exI[of _ 0]) (simp add: advance_0)
  next
    case False
    let ?N = "length (detrend (elems v))"
    let ?L = "nat (\<lceil>real ?N / 2\<rceil> - 1)"
    have g': "g' = advance (?L * ?N) g"
      using assms Inr False
      by (simp add: local_maxima_scalogram_def Let_def random_sample_def split: prod.splits)
    have "local_maxima_scalogram h a = (r, advance (?L * ?N) h)" if "\<forall>n<?L * ?N. h n = g n" for h
    proof -
      have rs: "random_sample ?L ?N h = (fst (random_sample ?L ?N g), advance (?L * ?N) h)"
        using that by (rule random_sample_frame)
      obtain m where rg: "random_sample ?L ?N g = (m, advance (?L * ?N) g)"
        by (simp add: random_sample_def)
      show ?thesis using assms Inr False
        by (simp add: local_maxima_scalogram_def Let_def rs rg)
    qed
    with g' show ?thesis by blast
  qed
qed

lemma ampd_frame:
  assumes "ampd_peaks g a = (r, g')"
  shows "\<exists>c. g' = advance c g
            \<and> (\<forall>h. (\<forall>n<c. h n = g n) \<longrightarrow> ampd_peaks h a = (r, advance c h))"
proof -
  obtain r0 g0 where l: "local_maxima_scalogram g a = (r0, g0)" by (cases "local_maxima_scalogram g a")
  from lms_frame[OF l] obtain c where g0: "g0 = advance c g"
    and fr: "\<And>h. (\<forall>n<c. h n = g n) \<Longrightarrow> local_maxima_scalogram h a = (r0, advance c h)"
    by blast
  have g': "g' = g0" using assms l
    by (auto simp: ampd_peaks_def Let_def split: sum.splits)
  have "ampd_peaks h a = (r, advance c h)" if "\<forall>n<c. h n = g n" for h
    using assms l fr[OF that] g0
    by (auto simp: ampd_peaks_def Let_def split: sum.splits)
  with g' g0 show ?thesis by blast
qed

lemma squeeze_idem: "squeeze (squeeze x) = squeeze x"
  by (simp add: squeeze_def)

lemma prod_list_squeeze: "prod_list (filter (\<lambda>d. d \<noteq> Suc 0) ds) = prod_list ds"
  by (induction ds) auto

lemma wf_shape_squeeze:
  assumes "wf_array a" and "3 \<le> length (elems a)"
  shows "shape (squeeze a) \<noteq> []" and "shape a \<noteq> []"
proof -
  have p: "prod_list (shape (squeeze a)) = length (elems a)"
    using assms(1) by (simp add: squeeze_def wf_array_def prod_list_squeeze)
  show "shape (squeeze a) \<noteq> []"
  proof
    assume "shape (squeeze a) = []"
    with p assms(2) show False by simp
  qed
  then show "shape a \<noteq> []" by (auto simp: squeeze_def)
qed

lemma ampd_peaks_many_axes:
  assumes "1 < ndim (squeeze a)"
  shows "ampd_peaks g a = (Inl (ValueError ''input cannot be cast to 1D vector''), g)"
  using assms
  by (simp add: ampd_peaks_def local_maxima_scalogram_def validate_vector_def Let_def ndim_def)

lemma lms_one_axis:
  assumes "wf_array a" and "3 \<le> length (elems a)" and "ndim (squeeze a) \<le> 1"
  shows "local_maxima_scalogram g a = local_maxima_scalogram g (vec (elems a))"
proof -
  have v: "validate_vector a = Inr (squeeze a)"
    using assms(3) by (simp add: validate_vector_def Let_def ndim_def)
  have v': "validate_vector (vec (elems a)) = Inr (vec (elems a))"
    using assms(2) by (intro validate_vector_vec) auto
  have "shape (squeeze a) \<noteq> []" using wf_shape_squeeze[OF assms(1,2)] by simp
  moreover have "shape (vec (elems a)) \<noteq> []" by (simp add: vec_def)
  moreover have "elems (squeeze a) = elems (vec (elems a))" by (simp add: squeeze_def vec_def)
  ultimately show ?thesis
    by (simp add: local_maxima_scalogram_def v v')
qed

lemma ampd_peaks_returns:
  assumes "wf_array a" and "3 \<le> length (elems a)" and "ndim (squeeze a) \<le> 1"
  shows "\<exists>peaks g'. ampd_peaks g a = (Inr peaks, g')"
proof -
  from assms(2) have two: "2 \<le> length (elems a)" by simp
  obtain lms g' where r: "local_maxima_scalogram g (vec (elems a)) = (Inr lms, g')"
    and len: "length lms = (length (elems a) + 1) div 2 - 1"
    using lms_vec[OF two, of g] by (auto simp del: upt_Suc)
  from assms(2) len have "lms \<noteq> []" by auto
  with ampd_peaks_eq[of g a lms g'] r lms_one_axis[OF assms, of g] show ?thesis by simp
qed

section \<open>The scalogram\<close>

text \<open>
  C1 (evaluation at the failing input). The samples \<open>1, 1, -5, 3\<close> have no linear trend, so
  detrending leaves them as they are. Here \<open>N = 4\<close> and \<open>L = 1\<close>. At scale \<open>k = 1\<close> the
  column \<open>i = 3 = N - k\<close> passes the test \<open>k + 1 \<le> i \<le> N - k\<close>, and its neighbour shifted
  by \<open>+k\<close> is read from the rolled copy of the data, which wraps around to sample \<open>0\<close>:
  the entry is set to \<open>0\<close> because \<open>3 > 1 = data[0]\<close> and \<open>3 > -5 = data[2]\<close>, although
  the signal has no sample \<open>data[i + k] = data[4]\<close>.
\<close>

theorem C1_last_sample_wraps:
  "detrend [1, 1, - 5, 3] = [1, 1, - 5, 3]
   \<and> local_maxima_scalogram (draws_const 0) (vec [1, 1, - 5, 3])
       = (Inr [[1, 1, 1, 0]], draws_const 0)"
  by (simp add: lms_vec detrend_example4 draws_const_def advance_draws_const)


section \<open>Peak detection\<close>

text \<open>
  C2 (counterexample). A signal of two samples has \<open>L = 0\<close> scales, the scalogram has no rows,
  the vector of row sums is empty and \<open>argmin\<close> raises: no peak set is returned.
\<close>

theorem C2_two_samples_raise: "ampd_peaks (draws_const 0) (vec [1, 2]) =
   (Inl (ValueError ''attempt to get argmin of an empty sequence''), draws_const 0)"
  by (simp add: ampd_peaks_def lms_vec argmin_def advance_0)

text \<open>
  C2 (amended). For every 1D signal of at least three samples, \<open>ampd_peaks\<close> returns exactly
  the column indices, in ascending order, whose sample standard deviation (denominator
  \<open>n - 1\<close>) over the rows \<open>1..\<lambda>\<close> of the scalogram is exactly zero, where \<open>\<lambda>\<close> is the first
  scale whose row sum is the least of all row sums.
\<close>

theorem C2_peaks_zero_std:
  assumes "3 \<le> length xs"
  shows "\<exists>lms g' lam.
           local_maxima_scalogram g (vec xs) = (Inr lms, g')
           \<and> length lms = (length xs + 1) div 2 - 1
           \<and> 1 \<le> lam \<and> lam \<le> length lms
           \<and> (\<forall>k<length lms. sum_list (lms ! (lam - 1)) \<le> sum_list (lms ! k))
           \<and> (\<forall>k<lam - 1. sum_list (lms ! (lam - 1)) < sum_list (lms ! k))
           \<and> ampd_peaks g (vec xs) =
               (Inr (filter (\<lambda>i. std 1 (map (\<lambda>r. r ! i) (take lam lms)) = Some 0)
                       [0..<length xs]), g')"
proof -
  from assms have two: "2 \<le> length xs" by simp
  obtain lms g' where r: "local_maxima_scalogram g (vec xs) = (Inr lms, g')"
    and len: "length lms = (length xs + 1) div 2 - 1"
    and row0: "0 < length lms \<Longrightarrow> length (lms ! 0) = length xs"
    using lms_vec[OF two, of g] by (auto simp del: upt_Suc)
  from assms len have pos: "0 < length lms" by simp
  then have ne: "lms \<noteq> []" by auto
  let ?gamma = "map sum_list lms"
  let ?j = "argmin_list ?gamma"
  have j: "?j < length lms" using argmin_list_less[of ?gamma] ne by simp
  have le: "\<forall>k<length lms. sum_list (lms ! (?j + 1 - 1)) \<le> sum_list (lms ! k)"
    using argmin_list_le[of _ ?gamma] j by simp
  have first: "\<forall>k<?j + 1 - 1. sum_list (lms ! (?j + 1 - 1)) < sum_list (lms ! k)"
    using argmin_list_first[of _ ?gamma] j by simp
  have "ampd_peaks g (vec xs) =
      (Inr (filter (\<lambda>i. std 1 (map (\<lambda>r. r ! i) (take (?j + 1) lms)) = Some 0) [0..<length xs]), g')"
    using ampd_peaks_eq[OF r ne] row0[OF pos] by simp
  with r len j le first show ?thesis
    by (intro exI[of _ lms] exI[of _ g'] exI[of _ "?j + 1"]) simp
qed

theorem C2_peaks_zero_std_witness:
  "3 \<le> length [1, 1, - 5, 3 :: real]
   \<and> (\<exists>lms g' lam.
           local_maxima_scalogram (draws_const 0) (vec [1, 1, - 5, 3]) = (Inr lms, g')
           \<and> length lms = (length [1, 1, - 5, 3 :: real] + 1) div 2 - 1
           \<and> 1 \<le> lam \<and> lam \<le> length lms
           \<and> (\<forall>k<length lms. sum_list (lms ! (lam - 1)) \<le> sum_list (lms ! k))
           \<and> (\<forall>k<lam - 1. sum_list (lms ! (lam - 1)) < sum_list (lms ! k))
           \<and> ampd_peaks (draws_const 0) (vec [1, 1, - 5, 3]) =
               (Inr (filter (\<lambda>i. std 1 (map (\<lambda>r. r ! i) (take lam lms)) = Some 0)
                       [0..<length [1, 1, - 5, 3 :: real]]), g'))"
proof -
  have h: "3 \<le> length [1, 1, - 5, 3 :: real]" by simp
  show ?thesis by (rule conjI[OF h C2_peaks_zero_std[OF h]])
qed

text \<open>
  C10. Whenever the least row sum occurs at the first scale (\<open>argmin\<close> returns index \<open>0\<close>,
  that is \<open>\<lambda> = 1\<close>), the restricted matrix has a single row, the standard deviation with
  denominator \<open>n - 1\<close> is not a number for every column, and \<open>ampd_peaks\<close> returns the empty
  peak set.
\<close>

theorem C10_first_scale_no_peaks:
  assumes "local_maxima_scalogram g data = (Inr lms, g')"
    and "argmin (map sum_list lms) = Inr 0"
  shows "length (take (0 + 1) lms) = 1
       \<and> list_all (\<lambda>s. s = None) (std_axis0 1 (take (0 + 1) lms))
       \<and> ampd_peaks g data = (Inr [], g')"
proof -
  from assms(2) have ne: "lms \<noteq> []" by (auto simp: argmin_def split: if_splits)
  then obtain r rs where lms: "lms = r # rs" by (cases lms) auto
  have s: "std_axis0 1 (take (0 + 1) lms) = map (\<lambda>i. None) [0..<length r]"
    by (simp add: lms std_axis0_def std_def)
  have a: "list_all (\<lambda>s. s = None) (std_axis0 1 (take (0 + 1) lms))"
    unfolding s by (simp add: list_all_iff)
  have "nonzero (map (\<lambda>s. s = Some 0) (std_axis0 1 (take (0 + 1) lms))) = []"
    unfolding s by (intro nonzero_all_false) (simp add: list_all_iff)
  then have "ampd_peaks g data = (Inr [], g')"
    using assms by (simp add: ampd_peaks_def Let_def)
  with a lms show ?thesis by simp
qed

theorem C10_first_scale_no_peaks_witness:
  "local_maxima_scalogram (draws_const 0) (vec [1, 1, - 5, 3]) = (Inr [[1, 1, 1, 0]], draws_const 0)
   \<and> argmin (map sum_list [[1, 1, 1, 0 :: real]]) = Inr 0
   \<and> length (take (0 + 1) [[1, 1, 1, 0 :: real]]) = 1
   \<and> list_all (\<lambda>s. s = None) (std_axis0 1 (take (0 + 1) [[1, 1, 1, 0]]))
   \<and> ampd_peaks (draws_const 0) (vec [1, 1, - 5, 3]) = (Inr [], draws_const 0)"
proof -
  have h1: "local_maxima_scalogram (draws_const 0) (vec [1, 1, - 5, 3]) = (Inr [[1, 1, 1, 0]], draws_const 0)"
    by (simp add: lms_vec detrend_example4 draws_const_def advance_draws_const)
  have h2: "argmin (map sum_list [[1, 1, 1, 0 :: real]]) = Inr 0"
    by (simp add: argmin_def)
  show ?thesis using C10_first_scale_no_peaks[OF h1 h2] h1 h2 by simp
qed


section \<open>Relative phase\<close>



text \<open>
  C4 (counterexample). On the four samples \<open>1, 1, -5, 3\<close> no peak is detected in either
  signal; the three returned sequences are empty, of length \<open>0\<close>, whereas the least of the
  count of peaks in A, the count of peaks in B and the count of peaks in A minus one is
  \<open>0 - 1 = -1\<close>.
\<close>

theorem C4_no_peaks_length_zero:
  "ampd_peaks (draws_const 0) (vec [1, 1, - 5, 3]) = (Inr [], draws_const 0)
   \<and> relative_phase pca_first_column (draws_const 0) (vec [1, 1, - 5, 3]) (Some (vec [1, 1, - 5, 3])) None
       = (Inr ([], [], []), draws_const 0)
   \<and> int (length ([] :: real list))
       \<noteq> min (int (length ([] :: nat list))) (min (int (length ([] :: nat list))) (int (length ([] :: nat list)) - 1))"
  by (simp add: peaks4 rp4)

text \<open>
  C4 (amended). Whenever \<open>relative_phase\<close> returns, the three returned sequences have the
  same length, the least of the count of peaks detected in A, the count of peaks detected in
  B and the count of periods, which is the count of peaks in A minus one, or zero when A has
  no peak.
\<close>

theorem C4_equal_lengths:
  assumes v: "validate_vectors pca a0 b0 = Inr (a, b)"
    and pa: "ampd_peaks g a = (Inr peaks_A, g1)"
    and pb: "ampd_peaks g1 b = (Inr peaks_B, g2)"
    and res: "relative_phase pca g a0 b0 t0 = (Inr (t_a, t_b, rel_phase), g')"
  shows "length t_a = length rel_phase \<and> length t_b = length rel_phase
       \<and> int (length rel_phase) =
           min (int (length peaks_A))
             (min (int (length peaks_B)) (max (int (length peaks_A) - 1) 0))"
proof -
  obtain t where tt: "time_base t0 a = Inr t"
    using ampd_peaks_shape[OF pa] by (cases t0) (auto simp: time_base_def)
  let ?len = "min (length peaks_A) (min (length peaks_B) (length (diff (map int peaks_A))))"
  from res have "length t_a = ?len \<and> length t_b = ?len \<and> length rel_phase = ?len"
    unfolding relative_phase_unfold[OF v tt pa pb] Let_def
    by (auto simp: take_idx_def split: sum.splits if_splits)
  then show ?thesis by (auto simp: length_diff)
qed

theorem C4_equal_lengths_witness:
  "validate_vectors pca_first_column (vec [- 2, 0, 0, 4, - 1, - 1, 3, - 3]) (Some (vec [- 2, 0, 0, 4, - 1, - 1, 3, - 3])) = Inr (vec [- 2, 0, 0, 4, - 1, - 1, 3, - 3], vec [- 2, 0, 0, 4, - 1, - 1, 3, - 3])
   \<and> ampd_peaks draws_two_phase (vec [- 2, 0, 0, 4, - 1, - 1, 3, - 3]) = (Inr [3, 6], advance 24 draws_two_phase)
   \<and> ampd_peaks (advance 24 draws_two_phase) (vec [- 2, 0, 0, 4, - 1, - 1, 3, - 3]) = (Inr [3, 6], advance 48 draws_two_phase)
   \<and> relative_phase pca_first_column draws_two_phase (vec [- 2, 0, 0, 4, - 1, - 1, 3, - 3]) (Some (vec [- 2, 0, 0, 4, - 1, - 1, 3, - 3])) None =
       (Inr ([3], [3], [0]), advance 48 draws_two_phase)
   \<and> length [3 :: real] = length [0 :: real] \<and> length [3 :: real] = length [0 :: real]
   \<and> int (length [0 :: real]) =
       min (int (length [3, 6 :: nat])) (min (int (length [3, 6 :: nat])) (max (int (length [3, 6 :: nat]) - 1) 0))"
proof -
  have h1: "validate_vectors pca_first_column (vec [- 2, 0, 0, 4, - 1, - 1, 3, - 3]) (Some (vec [- 2, 0, 0, 4, - 1, - 1, 3, - 3])) = Inr (vec [- 2, 0, 0, 4, - 1, - 1, 3, - 3], vec [- 2, 0, 0, 4, - 1, - 1, 3, - 3])"
    by (rule validate_vectors_vecs) simp_all
  note h2 = peaks8_first
  note h3 = peaks8_second
  note h4 = rp8_first[of pca_first_column]
  show ?thesis using C4_equal_lengths[OF h1 h2 h3 h4] h1 h2 h3 h4 by blast
qed

text \<open>
  C9. Whenever validation and both peak detections succeed and fewer than two peaks are found
  in A, or none in B, \<open>relative_phase\<close> does not raise: it returns three empty sequences.
\<close>

theorem C9_few_peaks_empty_result:
  assumes v: "validate_vectors pca a0 b0 = Inr (a, b)"
    and pa: "ampd_peaks g a = (Inr peaks_A, g1)"
    and pb: "ampd_peaks g1 b = (Inr peaks_B, g2)"
    and few: "length peaks_A < 2 \<or> peaks_B = []"
  shows "relative_phase pca g a0 b0 t0 = (Inr ([], [], []), g2)"
proof -
  obtain t where tt: "time_base t0 a = Inr t"
    using ampd_peaks_shape[OF pa] by (cases t0) (auto simp: time_base_def)
  from few have z: "min (length peaks_A) (min (length peaks_B) (length (diff (map int peaks_A)))) = 0"
    by (auto simp: length_diff)
  show ?thesis
    unfolding relative_phase_unfold[OF v tt pa pb] z Let_def
    by (simp add: take_idx_Nil)
qed

theorem C9_few_peaks_empty_result_witness:
  "validate_vectors pca_first_column (vec [1, 1, - 5, 3]) (Some (vec [1, 1, - 5, 3]))
     = Inr (vec [1, 1, - 5, 3], vec [1, 1, - 5, 3])
   \<and> ampd_peaks (draws_const 0) (vec [1, 1, - 5, 3]) = (Inr [], draws_const 0)
   \<and> (length ([] :: nat list) < 2 \<or> ([] :: nat list) = [])
   \<and> relative_phase pca_first_column (draws_const 0) (vec [1, 1, - 5, 3]) (Some (vec [1, 1, - 5, 3])) None
       = (Inr ([], [], []), draws_const 0)"
proof -
  have h1: "validate_vectors pca_first_column (vec [1, 1, - 5, 3]) (Some (vec [1, 1, - 5, 3]))
     = Inr (vec [1, 1, - 5, 3], vec [1, 1, - 5, 3])"
    by (rule validate_vectors_vecs) simp_all
  note h2 = peaks4
  have h3: "length ([] :: nat list) < 2 \<or> ([] :: nat list) = []" by simp
  show ?thesis using C9_few_peaks_empty_result[OF h1 h2 h2 h3] h1 h2 h3 by blast
qed


section \<open>Determinism and the generator\<close>

text \<open>
  C5 (counterexample). Two consecutive calls on the same noise-free arguments (the eight
  samples \<open>-2, 0, 0, 4, -1, -1, 3, -3\<close>, which have no linear trend, as both signals), the
  second call starting from the generator the first one leaves behind. Rows one and two of the
  scalogram each hold two zeros; which of them has the least sum is decided by the baseline
  drawn. The first call finds \<open>\<lambda> = 2\<close> and the peaks \<open>3, 6\<close> in both signals and returns one
  cycle; the second finds \<open>\<lambda> = 1\<close>, no peak, and returns nothing. The generator is changed by
  each call.
\<close>

theorem C5_two_calls_differ:
  "unit_draws draws_two_phase
   \<and> relative_phase pca_first_column draws_two_phase (vec [- 2, 0, 0, 4, - 1, - 1, 3, - 3]) (Some (vec [- 2, 0, 0, 4, - 1, - 1, 3, - 3])) None
       = (Inr ([3], [3], [0]), advance 48 draws_two_phase)
   \<and> relative_phase pca_first_column (advance 48 draws_two_phase) (vec [- 2, 0, 0, 4, - 1, - 1, 3, - 3]) (Some (vec [- 2, 0, 0, 4, - 1, - 1, 3, - 3])) None
       = (Inr ([], [], []), advance 96 draws_two_phase)"
  by (simp add: rp8_first rp8_second unit_draws_two_phase)

text \<open>
  C5 (amended). The result of a call of \<open>relative_phase\<close> is determined by its arguments
  together with the baseline values the call draws from the generator: the call consumes some
  number \<open>c\<close> of draws, leaves the generator advanced by \<open>c\<close>, and every call on the same
  arguments whose first \<open>c\<close> draws are the same returns the same result.
\<close>

theorem C5_result_determined_by_draws:
  assumes "relative_phase pca g a0 b0 t0 = (r, g')"
  shows "\<exists>c. g' = advance c g
            \<and> (\<forall>h. (\<forall>n<c. h n = g n) \<longrightarrow> relative_phase pca h a0 b0 t0 = (r, advance c h))"
proof (cases "validate_vectors pca a0 b0")
  case (Inl e)
  with assms have "r = Inl e" "g' = g" by (simp_all add: relative_phase_def)
  with Inl show ?thesis
    by (intro exI[of _ 0]) (simp add: relative_phase_def advance_0)
next
  case (Inr ab)
  obtain a b where ab: "ab = (a, b)" by (cases ab)
  show ?thesis
  proof (cases "time_base t0 a")
    case (Inl e)
    with assms Inr ab have "r = Inl e" "g' = g" by (simp_all add: relative_phase_def)
    with Inl Inr ab show ?thesis
      by (intro exI[of _ 0]) (simp add: relative_phase_def advance_0)
  next
    case tb: (Inr t)
    obtain ra g1 where pa: "ampd_peaks g a = (ra, g1)" by (cases "ampd_peaks g a")
    from ampd_frame[OF pa] obtain c1 where g1: "g1 = advance c1 g"
      and f1: "\<And>h. (\<forall>n<c1. h n = g n) \<Longrightarrow> ampd_peaks h a = (ra, advance c1 h)"
      by blast
    show ?thesis
    proof (cases ra)
      case (Inl e)
      with assms Inr ab tb pa have "r = Inl e" "g' = g1" by (simp_all add: relative_phase_def)
      moreover have "relative_phase pca h a0 b0 t0 = (Inl e, advance c1 h)"
        if "\<forall>n<c1. h n = g n" for h
        using f1[OF that] Inl Inr ab tb by (simp add: relative_phase_def)
      ultimately show ?thesis using g1 by blast
    next
      case peaks: (Inr peaks0)
      obtain rb g2 where pb: "ampd_peaks g1 b = (rb, g2)" by (cases "ampd_peaks g1 b")
      from ampd_frame[OF pb] obtain c2 where g2: "g2 = advance c2 g1"
        and f2: "\<And>h. (\<forall>n<c2. h n = g1 n) \<Longrightarrow> ampd_peaks h b = (rb, advance c2 h)"
        by blast
      have g2': "g2 = advance (c2 + c1) g" by (simp add: g2 g1 advance_advance)
      define K where "K = (\<lambda>p0 p1.
           (let periods = diff (map int p0);
                len = min (length p0) (min (length p1) (length periods));
                pa = take len p0; pb = take len p1; per = take len periods;
                rel_phase = map (\<lambda>j. 2 * pi * real_of_int (int (pa ! j) - int (pb ! j))
                                   / real_of_int (per ! j)) [0..<len]
            in case take_idx t pa of
                 Inl e \<Rightarrow> Inl e
               | Inr ta \<Rightarrow> (case take_idx t pb of Inl e \<Rightarrow> Inl e
                            | Inr tb \<Rightarrow> Inr (ta, tb, rel_phase))))"
      have K: "relative_phase pca k a0 b0 t0 =
            (case ampd_peaks k a of
               (Inl e, k1) \<Rightarrow> (Inl e, k1)
             | (Inr p0, k1) \<Rightarrow>
                 (case ampd_peaks k1 b of
                    (Inl e, k2) \<Rightarrow> (Inl e, k2)
                  | (Inr p1, k2) \<Rightarrow> (K p0 p1, k2)))" for k
        unfolding K_def using Inr ab tb
        by (simp add: relative_phase_def Let_def split: prod.splits sum.splits)
      have res: "(r, g') = (case rb of Inl e \<Rightarrow> (Inl e, g2) | Inr p1 \<Rightarrow> (K peaks0 p1, g2))"
        using assms K[of g] pa peaks pb by (simp split: sum.splits)
      have "relative_phase pca h a0 b0 t0 = (r, advance (c2 + c1) h)"
        if h: "\<forall>n<c2 + c1. h n = g n" for h
      proof -
        from h have a1: "ampd_peaks h a = (ra, advance c1 h)" by (intro f1) simp
        have "\<forall>n<c2. advance c1 h n = g1 n"
          using h by (simp add: g1 advance_apply)
        then have a2: "ampd_peaks (advance c1 h) b = (rb, advance c2 (advance c1 h))"
          by (rule f2)
        show ?thesis
          using res K[of h] a1 a2 peaks g2'
          by (simp add: advance_advance split: sum.splits)
      qed
      moreover from res have "g' = g2" by (simp split: sum.splits)
      ultimately show ?thesis using g2' by blast
    qed
  qed
qed

theorem C5_result_determined_by_draws_witness:
  "relative_phase pca_first_column draws_two_phase (vec [- 2, 0, 0, 4, - 1, - 1, 3, - 3]) (Some (vec [- 2, 0, 0, 4, - 1, - 1, 3, - 3])) None
       = (Inr ([3], [3], [0]), advance 48 draws_two_phase)
   \<and> (\<exists>c. advance 48 draws_two_phase = advance c draws_two_phase
          \<and> (\<forall>h. (\<forall>n<c. h n = draws_two_phase n) \<longrightarrow>
                 relative_phase pca_first_column h (vec [- 2, 0, 0, 4, - 1, - 1, 3, - 3]) (Some (vec [- 2, 0, 0, 4, - 1, - 1, 3, - 3])) None
                   = (Inr ([3], [3], [0]), advance c h)))"
proof -
  note h = rp8_first[of pca_first_column]
  show ?thesis by (rule conjI[OF h C5_result_determined_by_draws[OF h]])
qed

section \<open>Input handling\<close>



text \<open>
  C7 (counterexample). Two 1D signals of two samples each are passed as \<open>a\<close> and \<open>b\<close>: \<open>b\<close> is
  present and, after validation, both arrays are 1D. The call nevertheless raises a
  \<open>ValueError\<close>: the signal \<open>a\<close> has no scale, and \<open>argmin\<close> of the empty vector of row sums
  raises.
\<close>

theorem C7_short_signals_raise:
  "validate_vectors pca_first_column (vec [1, 2]) (Some (vec [3, 4])) = Inr (vec [1, 2], vec [3, 4])
   \<and> ndim (squeeze (vec [1, 2])) = 1 \<and> ndim (squeeze (vec [3, 4])) = 1
   \<and> relative_phase pca_first_column (draws_const 0) (vec [1, 2]) (Some (vec [3, 4])) None
       = (Inl (ValueError ''attempt to get argmin of an empty sequence''), draws_const 0)
   \<and> ValidationError (ValueError ''attempt to get argmin of an empty sequence'')"
proof -
  have v: "validate_vectors pca_first_column (vec [1, 2]) (Some (vec [3, 4])) = Inr (vec [1, 2], vec [3, 4])"
    by (rule validate_vectors_vecs) simp_all
  have n: "ndim (squeeze (vec [1, 2])) = 1" "ndim (squeeze (vec [3, 4])) = 1"
    by (simp_all add: ndim_def squeeze_def vec_def)
  have p: "ampd_peaks (draws_const 0) (vec [1, 2])
       = (Inl (ValueError ''attempt to get argmin of an empty sequence''), draws_const 0)"
    by (simp add: ampd_peaks_def lms_vec argmin_def advance_0)
  have "relative_phase pca_first_column (draws_const 0) (vec [1, 2]) (Some (vec [3, 4])) None
       = (Inl (ValueError ''attempt to get argmin of an empty sequence''), draws_const 0)"
    by (simp add: relative_phase_def v time_base_vec p)
  with v n show ?thesis by simp
qed

text \<open>
  C7 (amended). For every input that is either refused at the two-column check or turned by
  validation and reduction into two well-formed arrays of at least three samples each,
  \<open>relative_phase\<close> raises a \<open>ValidationError\<close> if and only if \<open>b\<close> is absent and \<open>a\<close>, once
  its axes of length one are removed, is not 2D with exactly two columns, or some array is
  still not 1D after the reduction. In the first case the error is raised before anything is
  drawn or computed: the generator is untouched and there is no partial result.
\<close>

theorem C7_validation_error_iff:
  assumes "(b0 = None \<and> (ndim (squeeze a0) \<noteq> 2 \<or> shape (squeeze a0) ! 1 \<noteq> 2))
         \<or> (\<exists>a b. validate_vectors pca a0 b0 = Inr (a, b)
                \<and> wf_array a \<and> 3 \<le> length (elems a) \<and> wf_array b \<and> 3 \<le> length (elems b))"
  shows "(\<exists>e g'. relative_phase pca g a0 b0 t0 = (Inl e, g') \<and> ValidationError e)
           = ((b0 = None \<and> (ndim (squeeze a0) \<noteq> 2 \<or> shape (squeeze a0) ! 1 \<noteq> 2))
              \<or> (\<exists>a b. validate_vectors pca a0 b0 = Inr (a, b)
                     \<and> (ndim (squeeze a) \<noteq> 1 \<or> ndim (squeeze b) \<noteq> 1)))
       \<and> (relative_phase pca g a0 b0 t0
             = (Inl (ValueError ''with one input, array must have be 2D with two columns''), g))
           = (b0 = None \<and> (ndim (squeeze a0) \<noteq> 2 \<or> shape (squeeze a0) ! 1 \<noteq> 2))"
proof (cases "b0 = None \<and> (ndim (squeeze a0) \<noteq> 2 \<or> shape (squeeze a0) ! 1 \<noteq> 2)")
  case True
  then have "validate_vectors pca a0 b0
     = Inl (ValueError ''with one input, array must have be 2D with two columns'')"
    by (auto simp: validate_vectors_def Let_def)
  then have "relative_phase pca g a0 b0 t0
     = (Inl (ValueError ''with one input, array must have be 2D with two columns''), g)"
    by (simp add: relative_phase_def)
  with True show ?thesis by auto
next
  case False
  with assms obtain a b where v: "validate_vectors pca a0 b0 = Inr (a, b)"
    and wa: "wf_array a" "3 \<le> length (elems a)"
    and wb: "wf_array b" "3 \<le> length (elems b)"
    by blast
  have na: "ndim (squeeze a) \<noteq> 0" and nb: "ndim (squeeze b) \<noteq> 0"
    using wf_shape_squeeze(1)[OF wa] wf_shape_squeeze(1)[OF wb] by (simp_all add: ndim_def)
  obtain t where tt: "time_base t0 a = Inr t"
    using wf_shape_squeeze(2)[OF wa] by (cases t0) (auto simp: time_base_def)
  let ?bad = "ndim (squeeze a) \<noteq> 1 \<or> ndim (squeeze b) \<noteq> 1"
  have both: "((\<exists>e g'. relative_phase pca g a0 b0 t0 = (Inl e, g') \<and> ValidationError e) = ?bad)
     \<and> relative_phase pca g a0 b0 t0
             \<noteq> (Inl (ValueError ''with one input, array must have be 2D with two columns''), g)"
  proof (cases "1 < ndim (squeeze a)")
    case True
    have r: "relative_phase pca g a0 b0 t0 = (Inl (ValueError ''input cannot be cast to 1D vector''), g)"
      by (simp add: relative_phase_def v tt ampd_peaks_many_axes[OF True])
    from True have "?bad" by simp
    moreover have "\<exists>e g'. relative_phase pca g a0 b0 t0 = (Inl e, g') \<and> ValidationError e"
      using r by simp
    ultimately show ?thesis using r by simp
  next
    case False
    with na have a1: "ndim (squeeze a) = 1" by linarith
    then have "ndim (squeeze a) \<le> 1" by simp
    from ampd_peaks_returns[OF wa this, of g] obtain pa g1 where
      pa: "ampd_peaks g a = (Inr pa, g1)" by blast
    show ?thesis
    proof (cases "1 < ndim (squeeze b)")
      case True
      have r: "relative_phase pca g a0 b0 t0 = (Inl (ValueError ''input cannot be cast to 1D vector''), g1)"
        by (simp add: relative_phase_def v tt pa ampd_peaks_many_axes[OF True])
      from True have "?bad" by simp
      moreover have "\<exists>e g'. relative_phase pca g a0 b0 t0 = (Inl e, g') \<and> ValidationError e"
        using r by simp
      ultimately show ?thesis using r by simp
    next
      case False
      with nb have b1: "ndim (squeeze b) = 1" by linarith
      then have "ndim (squeeze b) \<le> 1" by simp
      from ampd_peaks_returns[OF wb this, of g1] obtain pb g2 where
        pb: "ampd_peaks g1 b = (Inr pb, g2)" by blast
      have r: "\<not> ValidationError e"
        if "relative_phase pca g a0 b0 t0 = (Inl e, g')" for e g'
        using that unfolding relative_phase_unfold[OF v tt pa pb]
        by (auto simp: Let_def take_idx_def split: sum.splits if_splits)
      have "\<not> ?bad" using a1 b1 by simp
      moreover have "\<not> (\<exists>e g'. relative_phase pca g a0 b0 t0 = (Inl e, g') \<and> ValidationError e)"
        using r by blast
      moreover have "relative_phase pca g a0 b0 t0
             \<noteq> (Inl (ValueError ''with one input, array must have be 2D with two columns''), g)"
        using r[of "ValueError ''with one input, array must have be 2D with two columns''" g] by auto
      ultimately show ?thesis by blast
    qed
  qed
  then have main: "(\<exists>e g'. relative_phase pca g a0 b0 t0 = (Inl e, g') \<and> ValidationError e) = ?bad"
    and other: "relative_phase pca g a0 b0 t0
             \<noteq> (Inl (ValueError ''with one input, array must have be 2D with two columns''), g)"
    by blast+
  from main v have "(\<exists>e g'. relative_phase pca g a0 b0 t0 = (Inl e, g') \<and> ValidationError e)
           = ((b0 = None \<and> (ndim (squeeze a0) \<noteq> 2 \<or> shape (squeeze a0) ! 1 \<noteq> 2))
              \<or> (\<exists>a b. validate_vectors pca a0 b0 = Inr (a, b)
                     \<and> (ndim (squeeze a) \<noteq> 1 \<or> ndim (squeeze b) \<noteq> 1)))"
    using False by auto
  with other False show ?thesis by blast
qed

theorem C7_validation_error_iff_witness:
  "validate_vectors pca_first_column (vec [1, 1, - 5, 3]) (Some (vec [1, 1, - 5, 3]))
     = Inr (vec [1, 1, - 5, 3], vec [1, 1, - 5, 3])
   \<and> wf_array (vec [1, 1, - 5, 3]) \<and> 3 \<le> length (elems (vec [1, 1, - 5, 3]))
   \<and> ndim (squeeze (vec [1, 1, - 5, 3])) = 1
   \<and> \<not> (\<exists>e g'. relative_phase pca_first_column (draws_const 0) (vec [1, 1, - 5, 3])
                  (Some (vec [1, 1, - 5, 3])) None = (Inl e, g') \<and> ValidationError e)
   \<and> ndim (squeeze (vec [1, 2, 3])) = 1
   \<and> relative_phase pca_first_column (draws_const 0) (vec [1, 2, 3]) None None
       = (Inl (ValueError ''with one input, array must have be 2D with two columns''), draws_const 0)
   \<and> (\<exists>e g'. relative_phase pca_first_column (draws_const 0) (vec [1, 2, 3]) None None = (Inl e, g')
          \<and> ValidationError e)"
proof -
  have v: "validate_vectors pca_first_column (vec [1, 1, - 5, 3]) (Some (vec [1, 1, - 5, 3]))
           = Inr (vec [1, 1, - 5, 3], vec [1, 1, - 5, 3])"
    by (rule validate_vectors_vecs) simp_all
  have w: "wf_array (vec [1, 1, - 5, 3])" "3 \<le> length (elems (vec [1, 1, - 5, 3]))"
    by (simp_all add: wf_array_def vec_def)
  have n: "ndim (squeeze (vec [1, 1, - 5, 3])) = 1"
    by (simp add: ndim_def squeeze_def vec_def)
  have h1: "Some (vec [1, 1, - 5, 3]) = None
      \<and> (ndim (squeeze (vec [1, 1, - 5, 3])) \<noteq> 2 \<or> shape (squeeze (vec [1, 1, - 5, 3])) ! 1 \<noteq> 2)
    \<or> (\<exists>a b. validate_vectors pca_first_column (vec [1, 1, - 5, 3]) (Some (vec [1, 1, - 5, 3])) = Inr (a, b)
           \<and> wf_array a \<and> 3 \<le> length (elems a) \<and> wf_array b \<and> 3 \<le> length (elems b))"
    using v w by blast
  have m: "ndim (squeeze (vec [1, 2, 3])) = 1"
    by (simp add: ndim_def squeeze_def vec_def)
  then have h2: "None = (None :: ndarray option)
      \<and> (ndim (squeeze (vec [1, 2, 3])) \<noteq> 2 \<or> shape (squeeze (vec [1, 2, 3])) ! 1 \<noteq> 2)"
    by simp
  have c1: "\<not> (\<exists>e g'. relative_phase pca_first_column (draws_const 0) (vec [1, 1, - 5, 3])
                  (Some (vec [1, 1, - 5, 3])) None = (Inl e, g') \<and> ValidationError e)"
    using C7_validation_error_iff[OF h1, of "draws_const 0" None, THEN conjunct1] v n by auto
  have c2: "relative_phase pca_first_column (draws_const 0) (vec [1, 2, 3]) None None
       = (Inl (ValueError ''with one input, array must have be 2D with two columns''), draws_const 0)"
    using C7_validation_error_iff[OF disjI1[OF h2], of pca_first_column "draws_const 0" None,
        THEN conjunct2] h2 by blast
  then have c3: "\<exists>e g'. relative_phase pca_first_column (draws_const 0) (vec [1, 2, 3]) None None = (Inl e, g')
          \<and> ValidationError e"
    by simp
  from v w n m c1 c2 c3 show ?thesis by blast
qed

text \<open>
  C8 (counterexample). The 1D signal of two samples \<open>1, 2\<close> has a single axis, yet
  \<open>ampd_peaks\<close> raises a \<open>ValueError\<close>: with \<open>L = 0\<close> scales the vector of row sums is empty and
  \<open>argmin\<close> raises. The input is squeezable to 1D and is not accepted.
\<close>

theorem C8_one_axis_two_samples_raise:
  "length (filter (\<lambda>d. d \<noteq> 1) (shape (vec [1, 2]))) = 1
   \<and> ampd_peaks (draws_const 0) (vec [1, 2])
       = (Inl (ValueError ''attempt to get argmin of an empty sequence''), draws_const 0)
   \<and> ValidationError (ValueError ''attempt to get argmin of an empty sequence'')"
proof -
  have "length (filter (\<lambda>d. d \<noteq> 1) (shape (vec [1, 2]))) = 1" by (simp add: vec_def)
  moreover have "ampd_peaks (draws_const 0) (vec [1, 2])
       = (Inl (ValueError ''attempt to get argmin of an empty sequence''), draws_const 0)"
    by (simp add: ampd_peaks_def lms_vec argmin_def advance_0)
  ultimately show ?thesis by simp
qed

text \<open>
  C8 (amended). For every well-formed input of at least three samples, \<open>ampd_peaks\<close> raises a
  \<open>ValidationError\<close> if and only if more than one axis of the input has a length other than
  one; and every such input squeezable to a 1D sequence is accepted: \<open>ampd_peaks\<close> returns a
  peak set.
\<close>

theorem C8_peaks_validation_iff:
  assumes "wf_array data" and "3 \<le> length (elems data)"
  shows "(\<exists>e g'. ampd_peaks g data = (Inl e, g') \<and> ValidationError e)
           = (1 < length (filter (\<lambda>d. d \<noteq> 1) (shape data)))
       \<and> (\<exists>peaks g'. ampd_peaks g data = (Inr peaks, g'))
           = (length (filter (\<lambda>d. d \<noteq> 1) (shape data)) = 1)"
proof -
  have sh: "ndim (squeeze data) = length (filter (\<lambda>d. d \<noteq> 1) (shape data))"
    by (simp add: squeeze_def ndim_def)
  have ne: "length (filter (\<lambda>d. d \<noteq> 1) (shape data)) \<noteq> 0"
    using wf_shape_squeeze(1)[OF assms] by (simp add: squeeze_def)
  show ?thesis
  proof (cases "1 < ndim (squeeze data)")
    case True
    from ampd_peaks_many_axes[OF True, of g] True show ?thesis
      by (auto simp: sh)
  next
    case False
    then have le: "ndim (squeeze data) \<le> 1" by simp
    then have "length (filter (\<lambda>d. d \<noteq> 1) (shape data)) \<le> 1" by (simp only: sh)
    with ne have one: "length (filter (\<lambda>d. d \<noteq> 1) (shape data)) = 1" by linarith
    from ampd_peaks_returns[OF assms le, of g] obtain peaks g' where
      r: "ampd_peaks g data = (Inr peaks, g')" by blast
    then have "\<not> (\<exists>e g'. ampd_peaks g data = (Inl e, g') \<and> ValidationError e)" by simp
    moreover have "\<not> 1 < length (filter (\<lambda>d. d \<noteq> 1) (shape data))" using one by linarith
    ultimately show ?thesis using r one by blast
  qed
qed

theorem C8_peaks_validation_iff_witness:
  "wf_array \<lparr>shape = [10, 10], elems = replicate 100 0\<rparr>
   \<and> 3 \<le> length (elems \<lparr>shape = [10, 10], elems = replicate 100 0\<rparr>)
   \<and> 1 < length (filter (\<lambda>d. d \<noteq> 1) (shape \<lparr>shape = [10, 10], elems = replicate 100 0\<rparr>))
   \<and> (\<exists>e g'. ampd_peaks (draws_const 0) \<lparr>shape = [10, 10], elems = replicate 100 0\<rparr> = (Inl e, g')
          \<and> ValidationError e)
   \<and> wf_array (vec [1, 1, - 5, 3]) \<and> 3 \<le> length (elems (vec [1, 1, - 5, 3]))
   \<and> length (filter (\<lambda>d. d \<noteq> 1) (shape (vec [1, 1, - 5, 3]))) = 1
   \<and> (\<exists>peaks g'. ampd_peaks (draws_const 0) (vec [1, 1, - 5, 3]) = (Inr peaks, g'))"
proof -
  have h1: "wf_array \<lparr>shape = [10, 10], elems = replicate 100 0\<rparr>"
    by (simp add: wf_array_def)
  have h2: "3 \<le> length (elems \<lparr>shape = [10, 10], elems = replicate 100 0\<rparr>)" by simp
  have h3: "1 < length (filter (\<lambda>d. d \<noteq> 1) (shape \<lparr>shape = [10, 10], elems = replicate 100 0\<rparr>))"
    by simp
  have k1: "wf_array (vec [1, 1, - 5, 3])" by (simp add: wf_array_def vec_def)
  have k2: "3 \<le> length (elems (vec [1, 1, - 5, 3]))" by (simp add: vec_def)
  have k3: "length (filter (\<lambda>d. d \<noteq> 1) (shape (vec [1, 1, - 5, 3]))) = 1" by (simp add: vec_def)
  show ?thesis
    using C8_peaks_validation_iff[OF h1 h2, of "draws_const 0"]
      C8_peaks_validation_iff[OF k1 k2, of "draws_const 0"] h1 h2 h3 k1 k2 k3
    by blast
qed

end
